theory Spec2Isabelle
  imports Complex_Main "HOL-Library.AList"
begin

section \<open>Shared data model\<close>

text \<open>
  The two functions of \<^verbatim>\<open>corineFunctions.py\<close> drive the Earth Engine client and a
  map widget. The embedding keeps what the Python code itself decides: which calls it
  makes and in which order, what it does with each response, and where it raises.
  The responses of the remote service are parameters of the model (a \<open>backend\<close>
  record of functions), each either a value or the exception the call raised.
\<close>

text \<open>
  Exceptions the code can raise or let through. \<open>TypeError\<close> is the explicit
  \<^verbatim>\<open>raise TypeError\<close> of the region check. The two \<open>ValueError\<close>s the code can meet are
  kept apart by cause: \<^verbatim>\<open>int(k)\<close> on a malformed key, and \<^verbatim>\<open>list.index\<close> on an absent
  element. \<open>EEException\<close> stands for any failure of a remote call.
\<close>

datatype error =
    TypeError
  | ValueError_invalid_literal string
  | ValueError_not_in_list int
  | ValueError_empty_separator
  | IndexError
  | KeyError string
  | EEException

text \<open>A region is an opaque ring of coordinates; the code never looks inside it.\<close>

datatype geometry = Polygon "(int \<times> int) list"

text \<open>
  Earth Engine images are client-side expression trees: \<^verbatim>\<open>clip\<close>, \<^verbatim>\<open>eq\<close>,
  \<^verbatim>\<open>updateMask\<close>, \<^verbatim>\<open>pixelArea\<close> and \<^verbatim>\<open>addBands\<close> only build a bigger expression.
\<close>

datatype image =
    Image string
  | Clip image geometry
  | Eq image int
  | UpdateMask image image
  | PixelArea
  | AddBands image image

text \<open>A JSON number as Python decodes it, and Python's \<^verbatim>\<open>int(x)\<close> on it (truncation).\<close>

datatype number = IntNum int | FloatNum real

fun int_of_number :: "number \<Rightarrow> int" where
  "int_of_number (IntNum i) = i"
| "int_of_number (FloatNum r) = (if 0 \<le> r then \<lfloor>r\<rfloor> else \<lceil>r\<rceil>)"

text \<open>
  One record of the grouped-sum reduction, \<^verbatim>\<open>{'group': ..., 'sum': ...}\<close>. Python floats
  are read as reals: rounding is not modelled.
\<close>

record group_record =
  group_field :: number
  sum_field :: real

text \<open>
  The remote service. \<open>get_strings\<close> and \<open>get_ints\<close> answer
  \<^verbatim>\<open>image.get(name).getInfo()\<close> for list-valued properties, \<open>frequencyHistogram\<close> answers
  \<^verbatim>\<open>reduceRegion(frequencyHistogram, geometry, scale, maxPixels).get("landcover").getInfo()\<close>
  (a dictionary from string keys to pixel counts, in its iteration order), and
  \<open>sum_group\<close> answers the grouped-sum reduction's \<^verbatim>\<open>get('groups').getInfo()\<close>.
\<close>

record backend =
  get_strings :: "image \<Rightarrow> string \<Rightarrow> error + string list"
  get_ints :: "image \<Rightarrow> string \<Rightarrow> error + int list"
  frequencyHistogram :: "image \<Rightarrow> geometry \<Rightarrow> real \<Rightarrow> real \<Rightarrow> error + (string \<times> nat) list"
  sum_group :: "image \<Rightarrow> geometry \<Rightarrow> real \<Rightarrow> real \<Rightarrow> error + group_record list"

section \<open>The area tabulator: \<^verbatim>\<open>compute_landcover_area\<close>\<close>

text \<open>A row of the returned DataFrame; the DataFrame is the list of its rows.\<close>

record row =
  Class :: int
  Class_Name :: string
  Area_ha :: real

text \<open>
  What \<^verbatim>\<open>print\<close> writes. The per-class line
  \<^verbatim>\<open>f"{class_name} (Class {landcover_class}): {area_ha:.2f} ha"\<close> is kept as its three
  arguments, not rendered to text.
\<close>

datatype console_line =
    Line string
  | AreaLine string int real
  | Frame "row list"

text \<open>\<^verbatim>\<open>class_mapping.get(landcover_class, "Unknown")\<close>.\<close>

definition dict_get :: "('k \<rightharpoonup> 'v) \<Rightarrow> 'k \<Rightarrow> 'v \<Rightarrow> 'v" where
  "dict_get d k dflt = (case d k of None \<Rightarrow> dflt | Some v \<Rightarrow> v)"

text \<open>
  The \<^verbatim>\<open>for group in groups\<close> loop, with the printed lines and the \<open>data\<close> list as
  accumulators.
\<close>

fun group_loop ::
  "(int \<rightharpoonup> string) \<Rightarrow> bool \<Rightarrow> group_record list \<Rightarrow> console_line list \<Rightarrow> row list
     \<Rightarrow> console_line list \<times> row list" where
  "group_loop class_mapping verbose [] out data = (out, data)"
| "group_loop class_mapping verbose (g # groups) out data =
     (let landcover_class = int_of_number (group_field g);
          class_name = dict_get class_mapping landcover_class ''Unknown'';
          area_m2 = sum_field g;
          area_ha = area_m2 / 10000;
          out' = (if verbose then out @ [AreaLine class_name landcover_class area_ha] else out)
      in group_loop class_mapping verbose groups out'
           (data @ [\<lparr>Class = landcover_class, Class_Name = class_name, Area_ha = area_ha\<rparr>]))"

definition compute_landcover_area ::
  "backend \<Rightarrow> image \<Rightarrow> geometry \<Rightarrow> (int \<rightharpoonup> string) \<Rightarrow> real \<Rightarrow> real \<Rightarrow> bool
     \<Rightarrow> console_line list \<times> (error + row list)" where
  "compute_landcover_area be corine_clipped roi class_mapping scale maxPixels verbose =
     (let pixel_area = PixelArea;
          landcover_with_area = AddBands pixel_area corine_clipped
      in case sum_group be landcover_with_area roi scale maxPixels of
           Inl e \<Rightarrow> ([], Inl e)
         | Inr groups \<Rightarrow>
             (let out0 = (if verbose then [Line ''Landcover area in hectares:''] else []);
                  (out1, data) = group_loop class_mapping verbose groups out0 [];
                  df = data;
                  out2 = (if verbose
                          then out1 @ [Line (CHR 0x0A # ''Pandas DataFrame:''), Frame df]
                          else out1)
              in (out2, Inr df)))"

section \<open>The visualizer: \<^verbatim>\<open>visualize_corine_land_cover\<close>\<close>

subsection \<open>Python built-ins the function uses\<close>

text \<open>
  The values a caller can pass as \<open>roi\<close>: Python is untyped, so the argument may be a
  geometry or anything else. \<^verbatim>\<open>isinstance(roi, ee.Geometry)\<close> holds of the first
  constructor only.
\<close>

datatype pyobject =
    Geometry geometry
  | Feature geometry
  | ImageObj image
  | Str string
  | Num number
  | NoneObj

fun isinstance_Geometry :: "pyobject \<Rightarrow> bool" where
  "isinstance_Geometry (Geometry g) = True"
| "isinstance_Geometry other = False"

text \<open>
  \<^verbatim>\<open>int(k)\<close> on a string, for ASCII input: surrounding whitespace is stripped, one sign
  is allowed, then decimal digits, single underscores allowed between digits.
  (Non-ASCII digits and the interpreter's limit on the number of digits are left out.)
\<close>

definition is_space :: "char \<Rightarrow> bool" where
  "is_space c = (c \<in> set [CHR '' '', CHR 0x09, CHR 0x0A, CHR 0x0B, CHR 0x0C, CHR 0x0D])"

definition strip :: "string \<Rightarrow> string" where
  "strip s = rev (dropWhile is_space (rev (dropWhile is_space s)))"

definition digit_value :: "char \<Rightarrow> int option" where
  "digit_value = map_of
     [(CHR ''0'', 0), (CHR ''1'', 1), (CHR ''2'', 2), (CHR ''3'', 3), (CHR ''4'', 4),
      (CHR ''5'', 5), (CHR ''6'', 6), (CHR ''7'', 7), (CHR ''8'', 8), (CHR ''9'', 9)]"

fun digits_loop :: "string \<Rightarrow> int \<Rightarrow> int option" where
  "digits_loop [] acc = Some acc"
| "digits_loop (c # cs) acc =
     (case digit_value c of
        Some d \<Rightarrow> digits_loop cs (10 * acc + d)
      | None \<Rightarrow>
          (if c = CHR ''_'' then
             (case cs of
                [] \<Rightarrow> None
              | c' # cs' \<Rightarrow>
                  (case digit_value c' of
                     Some d \<Rightarrow> digits_loop cs' (10 * acc + d)
                   | None \<Rightarrow> None))
           else None))"

definition parse_digits :: "string \<Rightarrow> int option" where
  "parse_digits s =
     (case s of
        [] \<Rightarrow> None
      | c # cs \<Rightarrow> (case digit_value c of None \<Rightarrow> None | Some d \<Rightarrow> digits_loop cs d))"

definition py_int :: "string \<Rightarrow> error + int" where
  "py_int s =
     (let t = strip s;
          (negative, body) =
            (case t of
               [] \<Rightarrow> (False, [])
             | c # cs \<Rightarrow>
                 if c = CHR ''-'' then (True, cs)
                 else if c = CHR ''+'' then (False, cs)
                 else (False, t))
      in case parse_digits body of
           None \<Rightarrow> Inl (ValueError_invalid_literal s)
         | Some n \<Rightarrow> Inr (if negative then - n else n))"

text \<open>\<^verbatim>\<open>xs.index(x)\<close>: the first position of \<open>x\<close>, or \<open>ValueError\<close>.\<close>

fun list_index :: "int list \<Rightarrow> int \<Rightarrow> error + nat" where
  "list_index [] x = Inl (ValueError_not_in_list x)"
| "list_index (y # ys) x =
     (if y = x then Inr 0
      else (case list_index ys x of Inl e \<Rightarrow> Inl e | Inr i \<Rightarrow> Inr (Suc i)))"

text \<open>\<^verbatim>\<open>xs[i]\<close>: a negative index counts from the end; out of range raises.\<close>

definition getitem :: "'a list \<Rightarrow> int \<Rightarrow> error + 'a" where
  "getitem xs i =
     (if 0 \<le> i \<and> i < int (length xs) then Inr (xs ! nat i)
      else if i < 0 \<and> - int (length xs) \<le> i then Inr (xs ! nat (int (length xs) + i))
      else Inl IndexError)"

text \<open>
  \<^verbatim>\<open>s.split(sep)\<close>: the pieces between the occurrences of \<open>sep\<close> found scanning from
  the left, each next search starting after the previous occurrence. \<open>cur\<close> is the
  piece being read.
\<close>

fun split_loop :: "string \<Rightarrow> string \<Rightarrow> string \<Rightarrow> string list" where
  "split_loop sep cur [] = [cur]"
| "split_loop sep cur (c # cs) =
     (if sep \<noteq> [] \<and> take (length sep) (c # cs) = sep
      then cur # split_loop sep [] (drop (length sep) (c # cs))
      else split_loop sep (cur @ [c]) cs)"

definition str_split :: "string \<Rightarrow> string \<Rightarrow> error + string list" where
  "str_split s sep = (if sep = [] then Inl ValueError_empty_separator else Inr (split_loop sep [] s))"

text \<open>
  A list comprehension \<^verbatim>\<open>[f(x) for x in xs]\<close> whose body can raise: the first
  exception, in iteration order, ends it.
\<close>

fun comprehension :: "('a \<Rightarrow> error + 'b) \<Rightarrow> 'a list \<Rightarrow> error + 'b list" where
  "comprehension f [] = Inr []"
| "comprehension f (x # xs) =
     (case f x of
        Inl e \<Rightarrow> Inl e
      | Inr y \<Rightarrow> (case comprehension f xs of Inl e \<Rightarrow> Inl e | Inr ys \<Rightarrow> Inr (y # ys)))"

subsection \<open>The map widget\<close>

text \<open>
  The widget is what the code did to it: the layers added, in order, each with the image
  expression, the palette and the name passed to \<^verbatim>\<open>addLayer\<close>; the legend passed to
  \<^verbatim>\<open>add_legend\<close> (title and dictionary); the target of \<^verbatim>\<open>centerObject\<close>. The
  dictionary is a Python \<^verbatim>\<open>dict\<close>: an association list in insertion order, where
  storing under a key already there replaces the value in place (\<open>AList.update\<close>).
\<close>

record layer =
  layer_image :: image
  layer_palette :: "string list"
  layer_name :: string

record map_widget =
  layers :: "layer list"
  legend :: "(string \<times> (string \<times> string) list) option"
  center :: "(geometry \<times> nat) option"

definition Map_new :: map_widget where
  "Map_new = \<lparr>layers = [], legend = None, center = None\<rparr>"

definition addLayer :: "map_widget \<Rightarrow> image \<Rightarrow> string list \<Rightarrow> string \<Rightarrow> map_widget" where
  "addLayer m ee_object palette name =
     m\<lparr>layers := layers m @ [\<lparr>layer_image = ee_object, layer_palette = palette, layer_name = name\<rparr>]\<rparr>"

definition add_legend :: "map_widget \<Rightarrow> string \<Rightarrow> (string \<times> string) list \<Rightarrow> map_widget" where
  "add_legend m legend_title legend_dict = m\<lparr>legend := Some (legend_title, legend_dict)\<rparr>"

definition centerObject :: "map_widget \<Rightarrow> geometry \<Rightarrow> nat \<Rightarrow> map_widget" where
  "centerObject m g zoom = m\<lparr>center := Some (g, zoom)\<rparr>"

text \<open>The calls made on the Earth Engine client, in program order.\<close>

datatype ee_call =
    Call_Image string
  | Call_clip geometry
  | Call_get_getInfo string
  | Call_reduceRegion_getInfo geometry real real
  | Call_eq int
  | Call_updateMask

subsection \<open>The function\<close>

text \<open>
  Line 48: \<^verbatim>\<open>{int(k): present_classes[k] for k in present_classes}\<close>. The keys are read in
  the histogram's order; two keys that denote the same integer share one entry.
\<close>

fun filtered_classes_loop ::
  "(string \<times> nat) list \<Rightarrow> string list \<Rightarrow> (int \<times> nat) list \<Rightarrow> error + (int \<times> nat) list" where
  "filtered_classes_loop present_classes [] acc = Inr acc"
| "filtered_classes_loop present_classes (k # ks) acc =
     (case py_int k of
        Inl e \<Rightarrow> Inl e
      | Inr v \<Rightarrow>
          (case map_of present_classes k of
             None \<Rightarrow> Inl (KeyError k)
           | Some c \<Rightarrow> filtered_classes_loop present_classes ks (AList.update v c acc)))"

definition filtered_classes_of :: "(string \<times> nat) list \<Rightarrow> error + (int \<times> nat) list" where
  "filtered_classes_of present_classes =
     filtered_classes_loop present_classes (map fst present_classes) []"

text \<open>Lines 49-51, the body: \<^verbatim>\<open>class_names[class_values.index(k)].split("; ")[-1]\<close>.\<close>

definition filtered_class_name :: "string list \<Rightarrow> int list \<Rightarrow> int \<Rightarrow> error + string" where
  "filtered_class_name class_names class_values k =
     (case list_index class_values k of
        Inl e \<Rightarrow> Inl e
      | Inr idx \<Rightarrow>
          (case getitem class_names (int idx) of
             Inl e \<Rightarrow> Inl e
           | Inr s \<Rightarrow>
               (case str_split s ''; '' of
                  Inl e \<Rightarrow> Inl e
                | Inr parts \<Rightarrow> getitem parts (- 1))))"

text \<open>Lines 52-54, the body: \<^verbatim>\<open>class_palette[class_values.index(k)]\<close>.\<close>

definition filtered_class_colour :: "string list \<Rightarrow> int list \<Rightarrow> int \<Rightarrow> error + string" where
  "filtered_class_colour class_palette class_values k =
     (case list_index class_values k of
        Inl e \<Rightarrow> Inl e
      | Inr idx \<Rightarrow> getitem class_palette (int idx))"

text \<open>Lines 60-66: the loop over \<^verbatim>\<open>enumerate(filtered_classes)\<close>.\<close>

fun add_layers ::
  "image \<Rightarrow> string list \<Rightarrow> string list \<Rightarrow> (nat \<times> int) list \<Rightarrow> ee_call list \<Rightarrow> map_widget
     \<Rightarrow> ee_call list \<times> (error + map_widget)" where
  "add_layers corine_clipped filtered_class_palette filtered_class_names [] calls m =
     (calls, Inr m)"
| "add_layers corine_clipped filtered_class_palette filtered_class_names
     ((i, class_value) # rest) calls m =
     (let single_class = UpdateMask corine_clipped (Eq corine_clipped class_value);
          calls' = calls @ [Call_eq class_value, Call_updateMask]
      in case getitem filtered_class_palette (int i) of
           Inl e \<Rightarrow> (calls', Inl e)
         | Inr colour \<Rightarrow>
             (case getitem filtered_class_names (int i) of
                Inl e \<Rightarrow> (calls', Inl e)
              | Inr name \<Rightarrow>
                  add_layers corine_clipped filtered_class_palette filtered_class_names rest
                    calls' (addLayer m single_class [CHR ''#'' # colour] name)))"

text \<open>Lines 69-71: the legend dictionary, built over \<^verbatim>\<open>range(len(filtered_class_names))\<close>.\<close>

fun legend_loop ::
  "string list \<Rightarrow> string list \<Rightarrow> nat list \<Rightarrow> (string \<times> string) list
     \<Rightarrow> error + (string \<times> string) list" where
  "legend_loop filtered_class_names filtered_class_palette [] acc = Inr acc"
| "legend_loop filtered_class_names filtered_class_palette (i # rest) acc =
     (case getitem filtered_class_names (int i) of
        Inl e \<Rightarrow> Inl e
      | Inr name \<Rightarrow>
          (case getitem filtered_class_palette (int i) of
             Inl e \<Rightarrow> Inl e
           | Inr colour \<Rightarrow>
               legend_loop filtered_class_names filtered_class_palette rest
                 (AList.update name (CHR ''#'' # colour) acc)))"

text \<open>Lines 47-77: everything after the responses have arrived.\<close>

definition build_map ::
  "image \<Rightarrow> geometry \<Rightarrow> string \<Rightarrow> string list \<Rightarrow> int list \<Rightarrow> string list
     \<Rightarrow> (string \<times> nat) list \<Rightarrow> ee_call list \<Rightarrow> ee_call list \<times> (error + map_widget)" where
  "build_map corine_clipped g map_title class_names class_values class_palette present_classes calls =
     (case filtered_classes_of present_classes of
        Inl e \<Rightarrow> (calls, Inl e)
      | Inr filtered_classes \<Rightarrow>
     (case comprehension (filtered_class_name class_names class_values)
             (map fst filtered_classes) of
        Inl e \<Rightarrow> (calls, Inl e)
      | Inr filtered_class_names \<Rightarrow>
     (case comprehension (filtered_class_colour class_palette class_values)
             (map fst filtered_classes) of
        Inl e \<Rightarrow> (calls, Inl e)
      | Inr filtered_class_palette \<Rightarrow>
     (case add_layers corine_clipped filtered_class_palette filtered_class_names
             (List.enumerate 0 (map fst filtered_classes)) calls Map_new of
        (calls', Inl e) \<Rightarrow> (calls', Inl e)
      | (calls', Inr m) \<Rightarrow>
     (case legend_loop filtered_class_names filtered_class_palette
             [0 ..< length filtered_class_names] [] of
        Inl e \<Rightarrow> (calls', Inl e)
      | Inr legend_dict \<Rightarrow>
          (calls', Inr (centerObject (add_legend m map_title legend_dict) g 12)))))))"

definition corine_id :: string where
  "corine_id = ''COPERNICUS/CORINE/V20/100m/2018''"

text \<open>
  Lines 26-45 and the call of the rest. The result is the list of client calls made and
  either the widget or the exception that ended the call.
\<close>

definition visualize_corine_land_cover ::
  "backend \<Rightarrow> pyobject \<Rightarrow> string \<Rightarrow> ee_call list \<times> (error + map_widget)" where
  "visualize_corine_land_cover be roi map_title =
     (if \<not> isinstance_Geometry roi then ([], Inl TypeError)
      else case roi of
        Geometry g \<Rightarrow>
          (let corine = Image corine_id;
               corine_clipped = Clip corine g;
               c0 = [Call_Image corine_id, Call_clip g];
               c1 = c0 @ [Call_get_getInfo ''landcover_class_names''];
               c2 = c1 @ [Call_get_getInfo ''landcover_class_values''];
               c3 = c2 @ [Call_get_getInfo ''landcover_class_palette''];
               c4 = c3 @ [Call_reduceRegion_getInfo g 100 100000000]
           in case get_strings be corine ''landcover_class_names'' of
                Inl e \<Rightarrow> (c1, Inl e)
              | Inr class_names \<Rightarrow>
             (case get_ints be corine ''landcover_class_values'' of
                Inl e \<Rightarrow> (c2, Inl e)
              | Inr class_values \<Rightarrow>
             (case get_strings be corine ''landcover_class_palette'' of
                Inl e \<Rightarrow> (c3, Inl e)
              | Inr class_palette \<Rightarrow>
             (case frequencyHistogram be corine_clipped g 100 100000000 of
                Inl e \<Rightarrow> (c4, Inl e)
              | Inr present_classes \<Rightarrow>
                  build_map corine_clipped g map_title class_names class_values class_palette
                    present_classes c4))))
      | _ \<Rightarrow> ([], Inl TypeError))"

section \<open>Definitions used to state the properties\<close>

text \<open>The row the loop body of \<^verbatim>\<open>compute_landcover_area\<close> builds for one group record.\<close>

definition row_of :: "(int \<rightharpoonup> string) \<Rightarrow> group_record \<Rightarrow> row" where
  "row_of class_mapping g =
     \<lparr>Class = int_of_number (group_field g),
      Class_Name = dict_get class_mapping (int_of_number (group_field g)) ''Unknown'',
      Area_ha = sum_field g / 10000\<rparr>"

text \<open>
  The specification's reading of a display name, independent of \<open>split_loop\<close>: the
  positions at which the separator occurs in a string, and the text after the last of
  them (the whole string when there is none).
\<close>

definition occurrences :: "string \<Rightarrow> string \<Rightarrow> nat list" where
  "occurrences sep s = [i \<leftarrow> [0 ..< length s]. take (length sep) (drop i s) = sep]"

definition suffix_after_last :: "string \<Rightarrow> string \<Rightarrow> string" where
  "suffix_after_last sep s =
     (if occurrences sep s = [] then s
      else drop (last (occurrences sep s) + length sep) s)"

text \<open>
  The widget the function returns when nothing raises, written in closed form: one layer
  per present class \<open>ids ! i\<close>, named \<open>names ! i\<close> and coloured \<open>colours ! i\<close>, and
  the legend dictionary filled in the same order.
\<close>

definition widget_for ::
  "image \<Rightarrow> geometry \<Rightarrow> string \<Rightarrow> int list \<Rightarrow> string list \<Rightarrow> string list \<Rightarrow> map_widget" where
  "widget_for corine_clipped g map_title ids names colours =
     \<lparr>layers = map (\<lambda>(i, v). \<lparr>layer_image = UpdateMask corine_clipped (Eq corine_clipped v),
                                layer_palette = [CHR ''#'' # colours ! i],
                                layer_name = names ! i\<rparr>) (List.enumerate 0 ids),
      legend = Some (map_title,
                 fold (\<lambda>i. AList.update (names ! i) (CHR ''#'' # colours ! i))
                   [0 ..< length names] []),
      center = Some (g, 12)\<rparr>"

text \<open>The client calls made before the responses are processed (lines 31-45).\<close>

definition calls_before_build :: "geometry \<Rightarrow> ee_call list" where
  "calls_before_build g =
     [Call_Image corine_id, Call_clip g,
      Call_get_getInfo ''landcover_class_names'',
      Call_get_getInfo ''landcover_class_values'',
      Call_get_getInfo ''landcover_class_palette'',
      Call_reduceRegion_getInfo g 100 100000000]"

text \<open>The class a layer shows: the constant its image is masked to.\<close>

fun mask_class :: "image \<Rightarrow> int option" where
  "mask_class (UpdateMask a (Eq b v)) = Some v"
| "mask_class other = None"

text \<open>
  The legend entry of the \<open>i\<close>-th layer's class, read off the returned widget: the
  legend dictionary, looked up at the layer's name, gives \<^verbatim>\<open>#\<close> followed by the palette
  entry at the index where the layer's class stands in the metadata value list.
\<close>

definition legend_entry_matches :: "int list \<Rightarrow> string list \<Rightarrow> map_widget \<Rightarrow> nat \<Rightarrow> bool" where
  "legend_entry_matches class_values class_palette m i =
     (case mask_class (layer_image (layers m ! i)) of
        None \<Rightarrow> False
      | Some v \<Rightarrow>
          (case list_index class_values v of
             Inl e \<Rightarrow> False
           | Inr idx \<Rightarrow>
               (case legend m of
                  None \<Rightarrow> False
                | Some (title, legend_dict) \<Rightarrow>
                    map_of legend_dict (layer_name (layers m ! i))
                      = Some (CHR ''#'' # class_palette ! idx))))"

text \<open>Concrete regions and backends on which the properties are exercised.\<close>

definition region0 :: geometry where
  "region0 = Polygon [(0, 0), (10, 0), (10, 10), (0, 10)]"

definition mk_backend ::
  "string list \<Rightarrow> int list \<Rightarrow> string list \<Rightarrow> (string \<times> nat) list \<Rightarrow> group_record list \<Rightarrow> backend" where
  "mk_backend names vals palette hist groups =
     \<lparr>get_strings = (\<lambda>img p. if p = ''landcover_class_names'' then Inr names
                             else if p = ''landcover_class_palette'' then Inr palette
                             else Inl EEException),
      get_ints = (\<lambda>img p. if p = ''landcover_class_values'' then Inr vals else Inl EEException),
      frequencyHistogram = (\<lambda>img g scale maxPixels. Inr hist),
      sum_group = (\<lambda>img g scale maxPixels. Inr groups)\<rparr>"

definition scenario_backend :: backend where
  "scenario_backend =
     mk_backend [''Vegetation; Forest'', ''Water''] [1, 2] [''228B22'', ''0000FF'']
       [(''1'', 120), (''2'', 30)]
       [\<lparr>group_field = IntNum 1, sum_field = 500000\<rparr>,
        \<lparr>group_field = IntNum 2, sum_field = 125000\<rparr>]"

definition empty_backend :: backend where
  "empty_backend =
     mk_backend [''Vegetation; Forest'', ''Water''] [1, 2] [''228B22'', ''0000FF''] [] []"

definition duplicate_backend :: backend where
  "duplicate_backend =
     mk_backend [''Forest; Mixed'', ''Wetland; Mixed''] [1, 2] [''aaaaaa'', ''bbbbbb'']
       [(''1'', 5), (''2'', 3)] []"

definition inconsistent_backend :: backend where
  "inconsistent_backend =
     mk_backend [''Vegetation; Forest'', ''Water''] [1, 2] [''228B22'', ''0000FF'']
       [(''1'', 5), (''3'', 7)] []"

section \<open>The area tabulator: properties\<close>

lemma group_loop_data:
  "snd (group_loop cm v groups out data) = data @ map (row_of cm) groups"
  by (induction groups arbitrary: out data) (simp_all add: Let_def row_of_def)

lemma compute_landcover_area_table:
  "snd (compute_landcover_area be cc roi cm sc mp v) =
     (case sum_group be (AddBands PixelArea cc) roi sc mp of
        Inl e \<Rightarrow> Inl e
      | Inr groups \<Rightarrow> Inr (map (row_of cm) groups))"
proof (cases "sum_group be (AddBands PixelArea cc) roi sc mp")
  case (Inl e)
  then show ?thesis by (simp add: compute_landcover_area_def)
next
  case (Inr groups)
  have "snd (group_loop cm v groups (if v then [Line ''Landcover area in hectares:''] else []) [])
          = map (row_of cm) groups"
    by (simp add: group_loop_data)
  with Inr show ?thesis
    by (simp add: compute_landcover_area_def Let_def case_prod_unfold)
qed

lemma group_loop_quiet: "fst (group_loop cm False groups out data) = out"
  by (induction groups arbitrary: out data) (simp_all add: Let_def)

lemma compute_quiet: "fst (compute_landcover_area be cc roi cm sc mp False) = []"
  by (cases "sum_group be (AddBands PixelArea cc) roi sc mp")
     (simp_all add: compute_landcover_area_def Let_def case_prod_unfold group_loop_quiet)

text \<open>
  Claim C2. Whatever list of group records the grouped-sum reduction returns,
  \<^verbatim>\<open>compute_landcover_area\<close> returns a table with one row per record, in the same
  order; each row holds the group key converted by \<^verbatim>\<open>int\<close>, the name found for that
  integer in the caller's mapping (\<^verbatim>\<open>"Unknown"\<close> when there is none), and the group's
  sum divided by 10000. Areas are real numbers here: floating-point rounding is not
  modelled.
\<close>

theorem compute_landcover_area_rows:
  assumes "sum_group be (AddBands PixelArea corine_clipped) roi scale maxPixels = Inr groups"
  shows "snd (compute_landcover_area be corine_clipped roi class_mapping scale maxPixels verbose) =
     Inr (map (\<lambda>g. \<lparr>Class = int_of_number (group_field g),
                     Class_Name = (case class_mapping (int_of_number (group_field g)) of
                                     None \<Rightarrow> ''Unknown'' | Some n \<Rightarrow> n),
                     Area_ha = sum_field g / 10000\<rparr>) groups)"
  using assms by (simp add: compute_landcover_area_table row_of_def dict_get_def)

text \<open>
  The scenario of the specification: groups \<open>(1, 500000)\<close> and \<open>(2, 125000)\<close> with the
  mapping \<open>{1: "Forest"}\<close> give the rows \<open>(1, "Forest", 50)\<close> and \<open>(2, "Unknown", 12.5)\<close>.
\<close>

theorem compute_landcover_area_rows_scenario:
  "sum_group scenario_backend (AddBands PixelArea (Clip (Image corine_id) region0)) region0 100 100000000
     = Inr [\<lparr>group_field = IntNum 1, sum_field = 500000\<rparr>,
            \<lparr>group_field = IntNum 2, sum_field = 125000\<rparr>]
   \<and> snd (compute_landcover_area scenario_backend (Clip (Image corine_id) region0) region0
            [1 \<mapsto> ''Forest''] 100 100000000 True)
     = Inr [\<lparr>Class = 1, Class_Name = ''Forest'', Area_ha = 50\<rparr>,
            \<lparr>Class = 2, Class_Name = ''Unknown'', Area_ha = 12.5\<rparr>]"
proof -
  have h: "sum_group scenario_backend (AddBands PixelArea (Clip (Image corine_id) region0)) region0
             100 100000000
     = Inr [\<lparr>group_field = IntNum 1, sum_field = 500000\<rparr>,
            \<lparr>group_field = IntNum 2, sum_field = 125000\<rparr>]"
    by (simp add: scenario_backend_def mk_backend_def)
  show ?thesis
    using h compute_landcover_area_rows [OF h, of "[1 \<mapsto> ''Forest'']" True] by simp
qed

text \<open>
  Claim C6. A group whose class identifier has no entry in the caller's mapping gets a
  row whose class name is the string \<^verbatim>\<open>"Unknown"\<close>.
\<close>

theorem absent_class_is_Unknown:
  assumes "sum_group be (AddBands PixelArea corine_clipped) roi scale maxPixels = Inr groups"
    and "i < length groups"
    and "class_mapping (int_of_number (group_field (groups ! i))) = None"
  shows "\<exists>table.
     snd (compute_landcover_area be corine_clipped roi class_mapping scale maxPixels verbose) = Inr table
     \<and> length table = length groups
     \<and> Class (table ! i) = int_of_number (group_field (groups ! i))
     \<and> Class_Name (table ! i) = ''Unknown''"
  using assms by (simp add: compute_landcover_area_table row_of_def dict_get_def)

theorem absent_class_is_Unknown_scenario:
  "\<exists>table.
     snd (compute_landcover_area scenario_backend (Clip (Image corine_id) region0) region0
            [1 \<mapsto> ''Forest''] 100 100000000 False) = Inr table
     \<and> length table = 2 \<and> Class (table ! 1) = 2 \<and> Class_Name (table ! 1) = ''Unknown''"
proof -
  have h: "sum_group scenario_backend (AddBands PixelArea (Clip (Image corine_id) region0)) region0
             100 100000000
     = Inr [\<lparr>group_field = IntNum 1, sum_field = 500000\<rparr>,
            \<lparr>group_field = IntNum 2, sum_field = 125000\<rparr>]"
    by (simp add: scenario_backend_def mk_backend_def)
  show ?thesis
    using absent_class_is_Unknown [OF h, of 1 "[1 \<mapsto> ''Forest'']" False]
    by (simp add: numeral_2_eq_2)
qed

text \<open>
  Claim C9. Two calls that differ only in \<open>verbose\<close> return the same table (or the
  same exception); with \<open>verbose\<close> false nothing is printed.
\<close>

theorem verbose_only_prints:
  "snd (compute_landcover_area be corine_clipped roi class_mapping scale maxPixels True) =
   snd (compute_landcover_area be corine_clipped roi class_mapping scale maxPixels False)
   \<and> fst (compute_landcover_area be corine_clipped roi class_mapping scale maxPixels False) = []"
  by (simp add: compute_landcover_area_table compute_quiet)

text \<open>
  Claim C10. When the grouped-sum reduction returns no group record, the function
  returns normally, with a table of zero rows.
\<close>

theorem no_groups_empty_table:
  assumes "sum_group be (AddBands PixelArea corine_clipped) roi scale maxPixels = Inr []"
  shows "snd (compute_landcover_area be corine_clipped roi class_mapping scale maxPixels verbose) = Inr []"
  using assms by (simp add: compute_landcover_area_table)

theorem no_groups_empty_table_example:
  "sum_group empty_backend (AddBands PixelArea (Clip (Image corine_id) region0)) region0 100 100000000 = Inr []
   \<and> snd (compute_landcover_area empty_backend (Clip (Image corine_id) region0) region0
            [1 \<mapsto> ''Forest''] 100 100000000 True) = Inr []"
proof -
  have h: "sum_group empty_backend (AddBands PixelArea (Clip (Image corine_id) region0)) region0
             100 100000000 = Inr []"
    by (simp add: empty_backend_def mk_backend_def)
  show ?thesis
    using h no_groups_empty_table [OF h, of "[1 \<mapsto> ''Forest'']" True] by simp
qed

section \<open>Python built-ins: properties\<close>

lemma occurrences_Cons:
  "occurrences sep (c # cs) =
     (if take (length sep) (c # cs) = sep then [0] else []) @ map Suc (occurrences sep cs)"
proof -
  have "[0 ..< length (c # cs)] = 0 # map Suc [0 ..< length cs]"
    by (simp only: length_Cons map_Suc_upt upt_conv_Cons[OF zero_less_Suc])
  then show ?thesis
    by (simp add: occurrences_def filter_map comp_def)
qed

lemma split_loop_nonempty: "split_loop sep cur s \<noteq> []"
  by (induction sep cur s rule: split_loop.induct) auto

lemma last_split_loop:
  "sep = [a, b] \<Longrightarrow> a \<noteq> b \<Longrightarrow>
   last (split_loop sep cur s) =
     (if occurrences sep s = [] then cur @ s
      else drop (last (occurrences sep s) + 2) s)"
proof (induction sep cur s rule: split_loop.induct)
  case (1 sep cur)
  then show ?case by (simp add: occurrences_def)
next
  case (2 sep cur c cs)
  show ?case
  proof (cases "take (length sep) (c # cs) = sep")
    case True
    with 2 obtain rest where cs: "cs = b # rest" and c: "c = a"
      by (cases cs) auto
    have occ: "occurrences sep (c # cs) = 0 # map (\<lambda>i. Suc (Suc i)) (occurrences sep rest)"
      using 2(3,4) by (simp add: occurrences_Cons cs c)
    have ih: "last (split_loop sep [] rest) =
        (if occurrences sep rest = [] then rest
         else drop (last (occurrences sep rest) + 2) rest)"
      using 2(1)[OF _ 2(3,4)] True 2(3) cs by simp
    have "last (split_loop sep cur (c # cs)) = last (split_loop sep [] rest)"
      using True 2(3) cs by (simp add: split_loop_nonempty)
    then show ?thesis
      using ih occ cs c by (simp add: last_map)
  next
    case False
    have occ: "occurrences sep (c # cs) = map Suc (occurrences sep cs)"
      using False by (simp add: occurrences_Cons)
    have ih: "last (split_loop sep (cur @ [c]) cs) =
        (if occurrences sep cs = [] then (cur @ [c]) @ cs
         else drop (last (occurrences sep cs) + 2) cs)"
      using 2(2)[OF _ 2(3,4)] False by simp
    have "last (split_loop sep cur (c # cs)) = last (split_loop sep (cur @ [c]) cs)"
      using False by simp
    then show ?thesis
      using ih occ by (simp add: last_map)
  qed
qed

lemma display_name_suffix:
  "str_split s ''; '' = Inr parts \<Longrightarrow> getitem parts (- 1) = Inr (suffix_after_last ''; '' s)"
proof -
  assume "str_split s ''; '' = Inr parts"
  then have parts: "parts = split_loop ''; '' [] s"
    by (simp add: str_split_def)
  have ne: "parts \<noteq> []" by (simp add: parts split_loop_nonempty)
  have "last parts = suffix_after_last ''; '' s"
    unfolding parts suffix_after_last_def
    using last_split_loop[of "''; ''" "CHR '';''" "CHR '' ''" "[]" s] by simp
  moreover have "getitem parts (- 1) = Inr (last parts)"
    using ne by (cases parts rule: rev_cases) (simp_all add: getitem_def nth_append)
  ultimately show ?thesis by simp
qed

section \<open>The visualizer: properties\<close>

subsection \<open>list.index and indexing\<close>

lemma list_index_Inr:
  "list_index xs x = Inr i \<Longrightarrow> i < length xs \<and> xs ! i = x \<and> (\<forall>j<i. xs ! j \<noteq> x)"
proof (induction xs arbitrary: i)
  case Nil
  then show ?case by simp
next
  case (Cons y ys)
  show ?case
  proof (cases "y = x")
    case True
    with Cons.prems show ?thesis by simp
  next
    case False
    with Cons.prems obtain i' where i': "list_index ys x = Inr i'" "i = Suc i'"
      by (auto split: sum.splits)
    from Cons.IH[OF i'(1)] False i'(2) show ?thesis
      by (auto simp: nth_Cons split: nat.splits)
  qed
qed

lemma list_index_Inl:
  "list_index xs x = Inl e \<Longrightarrow> x \<notin> set xs \<and> e = ValueError_not_in_list x"
  by (induction xs) (auto split: if_splits sum.splits)

lemma list_index_absent:
  "x \<notin> set xs \<Longrightarrow> list_index xs x = Inl (ValueError_not_in_list x)"
  by (induction xs) auto

lemma list_index_present:
  "x \<in> set xs \<Longrightarrow> \<exists>i. list_index xs x = Inr i"
  by (induction xs) (auto split: sum.splits)

lemma getitem_nat:
  "getitem xs (int i) = (if i < length xs then Inr (xs ! i) else Inl IndexError)"
  by (simp add: getitem_def)

subsection \<open>Comprehensions\<close>

lemma comprehension_Inr:
  "comprehension f xs = Inr ys \<Longrightarrow>
     length ys = length xs \<and> (\<forall>i<length xs. f (xs ! i) = Inr (ys ! i))"
proof (induction xs arbitrary: ys)
  case Nil
  then show ?case by simp
next
  case (Cons x xs)
  from Cons.prems obtain y ys' where
    y: "f x = Inr y" and ys': "comprehension f xs = Inr ys'" and ys: "ys = y # ys'"
    by (auto split: sum.splits)
  from Cons.IH[OF ys'] y ys show ?case
    by (auto simp: nth_Cons split: nat.splits)
qed

lemma comprehension_Inl:
  "comprehension f xs = Inl e \<Longrightarrow> \<exists>x\<in>set xs. f x = Inl e"
  by (induction xs) (auto split: sum.splits)

lemma comprehension_fails:
  "x \<in> set xs \<Longrightarrow> f x = Inl e \<Longrightarrow> \<exists>e'. comprehension f xs = Inl e'"
  by (induction xs) (auto split: sum.splits)

lemma comprehension_total:
  "(\<And>x. x \<in> set xs \<Longrightarrow> \<exists>y. f x = Inr y) \<Longrightarrow> \<exists>ys. comprehension f xs = Inr ys"
proof (induction xs)
  case Nil
  then show ?case by simp
next
  case (Cons x xs)
  then obtain y where "f x = Inr y" by force
  moreover from Cons obtain ys where "comprehension f xs = Inr ys" by force
  ultimately show ?case by simp
qed

subsection \<open>The names and colours of one class\<close>

lemma filtered_class_name_Inr:
  assumes "filtered_class_name class_names class_values v = Inr n"
  shows "\<exists>idx. list_index class_values v = Inr idx \<and> idx < length class_names
           \<and> n = suffix_after_last ''; '' (class_names ! idx)"
proof -
  from assms obtain idx s parts where
    idx: "list_index class_values v = Inr idx" and
    s: "getitem class_names (int idx) = Inr s" and
    parts: "str_split s ''; '' = Inr parts" and
    n: "getitem parts (- 1) = Inr n"
    by (auto simp: filtered_class_name_def split: sum.splits)
  from s have "idx < length class_names" "s = class_names ! idx"
    by (auto simp: getitem_nat split: if_splits)
  with idx display_name_suffix[OF parts] n show ?thesis by simp
qed

lemma filtered_class_name_Inl:
  assumes "filtered_class_name class_names class_values v = Inl e"
  shows "(v \<notin> set class_values \<and> e = ValueError_not_in_list v)
       \<or> (e = IndexError \<and> (\<exists>idx. list_index class_values v = Inr idx \<and> length class_names \<le> idx))"
proof (cases "list_index class_values v")
  case (Inl e')
  with assms list_index_Inl[OF Inl] show ?thesis
    by (simp add: filtered_class_name_def)
next
  case (Inr idx)
  show ?thesis
  proof (cases "idx < length class_names")
    case True
    obtain parts where parts: "str_split (class_names ! idx) ''; '' = Inr parts"
      by (simp add: str_split_def)
    from assms Inr True parts display_name_suffix[OF parts] show ?thesis
      by (simp add: filtered_class_name_def getitem_nat)
  next
    case False
    with assms Inr show ?thesis
      by (simp add: filtered_class_name_def getitem_nat)
  qed
qed

lemma filtered_class_colour_Inr:
  assumes "filtered_class_colour class_palette class_values v = Inr c"
  shows "\<exists>idx. list_index class_values v = Inr idx \<and> idx < length class_palette
           \<and> c = class_palette ! idx"
  using assms
  by (auto simp: filtered_class_colour_def getitem_nat split: sum.splits if_splits)

subsection \<open>The dictionary of present classes\<close>

lemma filtered_classes_loop_Inr:
  "filtered_classes_loop pc ks acc = Inr fc \<Longrightarrow>
     (\<forall>k\<in>set ks. \<exists>v. py_int k = Inr v)
     \<and> fst ` set fc = fst ` set acc \<union> {v. \<exists>k\<in>set ks. py_int k = Inr v}
     \<and> (distinct (map fst acc) \<longrightarrow> distinct (map fst fc))"
proof (induction ks arbitrary: acc)
  case Nil
  then show ?case by simp
next
  case (Cons k ks)
  from Cons.prems obtain v c where
    v: "py_int k = Inr v" and
    rest: "filtered_classes_loop pc ks (AList.update v c acc) = Inr fc"
    by (auto split: sum.splits option.splits)
  from Cons.IH[OF rest] v show ?case
    by (auto simp: AList.dom_update AList.distinct_update)
qed

lemma filtered_classes_loop_total:
  "(\<And>k. k \<in> set ks \<Longrightarrow> (\<exists>v. py_int k = Inr v) \<and> k \<in> fst ` set pc) \<Longrightarrow>
     \<exists>fc. filtered_classes_loop pc ks acc = Inr fc"
proof (induction ks arbitrary: acc)
  case Nil
  then show ?case by simp
next
  case (Cons k ks)
  from Cons.prems[of k] obtain v where v: "py_int k = Inr v" by auto
  from Cons.prems[of k] have "map_of pc k \<noteq> None"
    by (simp add: map_of_eq_None_iff)
  then obtain c where c: "map_of pc k = Some c" by auto
  from Cons.IH[of "AList.update v c acc"] Cons.prems obtain fc where
    "filtered_classes_loop pc ks (AList.update v c acc) = Inr fc" by auto
  with v c show ?case by simp
qed

lemma filtered_classes_of_Inr:
  assumes "filtered_classes_of pc = Inr fc"
  shows "distinct (map fst fc)" and "Inr ` set (map fst fc) = py_int ` fst ` set pc"
proof -
  note L = filtered_classes_loop_Inr[OF assms[unfolded filtered_classes_of_def]]
  note parse = L[THEN conjunct1]
  from L[THEN conjunct2, THEN conjunct1] have ids: "fst ` set fc = {v. \<exists>k\<in>set (map fst pc). py_int k = Inr v}"
    by simp
  from L[THEN conjunct2, THEN conjunct2] show "distinct (map fst fc)" by simp
  show "Inr ` set (map fst fc) = py_int ` fst ` set pc"
  proof (rule set_eqI, rule iffI)
    fix r :: "error + int"
    assume "r \<in> Inr ` set (map fst fc)"
    then obtain v where r: "r = Inr v" and "v \<in> set (map fst fc)"
      by blast
    then have "v \<in> fst ` set fc" by simp
    with ids obtain k where "k \<in> set (map fst pc)" "py_int k = Inr v"
      by blast
    with r show "r \<in> py_int ` fst ` set pc"
      by (metis image_eqI set_map)
  next
    fix r :: "error + int"
    assume "r \<in> py_int ` fst ` set pc"
    then obtain k where "k \<in> fst ` set pc" and r: "r = py_int k"
      by blast
    then have k: "k \<in> set (map fst pc)" by simp
    from parse k obtain v where v: "py_int k = Inr v"
      by blast
    with k ids have "v \<in> fst ` set fc" by blast
    with r v show "r \<in> Inr ` set (map fst fc)"
      by (metis image_eqI set_map)
  qed
qed

lemma filtered_classes_of_total:
  assumes "\<forall>k\<in>fst ` set pc. \<exists>v. py_int k = Inr v"
  shows "\<exists>fc. filtered_classes_of pc = Inr fc"
proof -
  have "\<And>k. k \<in> set (map fst pc) \<Longrightarrow> (\<exists>v. py_int k = Inr v) \<and> k \<in> fst ` set pc"
    using assms by auto
  from filtered_classes_loop_total[of "map fst pc" pc "[]", OF this]
  show ?thesis by (simp add: filtered_classes_of_def)
qed

subsection \<open>The two loops over the present classes\<close>

lemma add_layers_ok:
  "(\<And>i v. (i, v) \<in> set ps \<Longrightarrow> i < length pal \<and> i < length nms) \<Longrightarrow>
   add_layers cc pal nms ps calls m =
     (calls @ concat (map (\<lambda>(i, v). [Call_eq v, Call_updateMask]) ps),
      Inr (m\<lparr>layers := layers m @
              map (\<lambda>(i, v). \<lparr>layer_image = UpdateMask cc (Eq cc v),
                              layer_palette = [CHR ''#'' # pal ! i],
                              layer_name = nms ! i\<rparr>) ps\<rparr>))"
proof (induction ps arbitrary: calls m)
  case Nil
  then show ?case by simp
next
  case (Cons p ps)
  obtain i v where p: "p = (i, v)" by (cases p)
  from Cons.prems[of i v] p have iv: "i < length pal" "i < length nms" by auto
  have rest: "\<And>i v. (i, v) \<in> set ps \<Longrightarrow> i < length pal \<and> i < length nms"
    using Cons.prems by auto
  show ?case
    using iv Cons.IH[OF rest]
    by (simp add: p getitem_nat Let_def addLayer_def)
qed

lemma legend_loop_ok:
  "(\<And>i. i \<in> set xs \<Longrightarrow> i < length nms \<and> i < length pal) \<Longrightarrow>
   legend_loop nms pal xs acc =
     Inr (fold (\<lambda>i. AList.update (nms ! i) (CHR ''#'' # pal ! i)) xs acc)"
proof (induction xs arbitrary: acc)
  case Nil
  then show ?case by simp
next
  case (Cons i xs)
  from Cons.prems[of i] have "i < length nms" "i < length pal" by auto
  moreover have "\<And>j. j \<in> set xs \<Longrightarrow> j < length nms \<and> j < length pal"
    using Cons.prems by auto
  ultimately show ?case
    using Cons.IH by (simp add: getitem_nat)
qed

lemma map_of_fold_update_last:
  "i < n \<Longrightarrow> (\<And>j. i < j \<Longrightarrow> j < n \<Longrightarrow> f j \<noteq> f i) \<Longrightarrow>
   map_of (fold (\<lambda>i. AList.update (f i) (h i)) [0 ..< n] acc) (f i) = Some (h i)"
proof (induction n)
  case 0
  then show ?case by simp
next
  case (Suc n)
  show ?case
  proof (cases "i = n")
    case True
    then show ?thesis by (simp add: AList.update_conv')
  next
    case False
    with Suc.prems have "i < n" by simp
    moreover have "f i \<noteq> f n" using Suc.prems(2)[of n] \<open>i < n\<close> by auto
    ultimately show ?thesis
      using Suc.IH Suc.prems(2) by (simp add: AList.update_conv')
  qed
qed

lemma keys_fold_update:
  "fst ` set (fold (\<lambda>i. AList.update (f i) (h i)) xs acc) = fst ` set acc \<union> f ` set xs"
  by (induction xs arbitrary: acc) (auto simp: AList.dom_update)

subsection \<open>The whole function\<close>

lemma build_map_Inr:
  assumes "build_map cc g title class_names class_values class_palette pc calls = (calls', Inr m)"
  shows "\<exists>fc names colours.
           filtered_classes_of pc = Inr fc
         \<and> comprehension (filtered_class_name class_names class_values) (map fst fc) = Inr names
         \<and> comprehension (filtered_class_colour class_palette class_values) (map fst fc) = Inr colours
         \<and> m = widget_for cc g title (map fst fc) names colours"
proof -
  from assms obtain fc where fc: "filtered_classes_of pc = Inr fc"
    by (auto simp: build_map_def split: sum.splits)
  from assms fc obtain names where
    names: "comprehension (filtered_class_name class_names class_values) (map fst fc) = Inr names"
    by (auto simp: build_map_def split: sum.splits)
  from assms fc names obtain colours where
    colours: "comprehension (filtered_class_colour class_palette class_values) (map fst fc) = Inr colours"
    by (auto simp: build_map_def split: sum.splits)
  have ln: "length names = length fc" using comprehension_Inr[OF names] by simp
  have lc: "length colours = length fc" using comprehension_Inr[OF colours] by simp
  have layers_ok: "add_layers cc colours names (List.enumerate 0 (map fst fc)) calls Map_new =
     (calls @ concat (map (\<lambda>(i, v). [Call_eq v, Call_updateMask]) (List.enumerate 0 (map fst fc))),
      Inr (Map_new\<lparr>layers := layers Map_new @
              map (\<lambda>(i, v). \<lparr>layer_image = UpdateMask cc (Eq cc v),
                              layer_palette = [CHR ''#'' # colours ! i],
                              layer_name = names ! i\<rparr>) (List.enumerate 0 (map fst fc))\<rparr>))"
    by (rule add_layers_ok) (auto simp: ln lc in_set_enumerate_eq)
  have legend_ok: "legend_loop names colours [0 ..< length names] [] =
     Inr (fold (\<lambda>i. AList.update (names ! i) (CHR ''#'' # colours ! i)) [0 ..< length names] [])"
    by (rule legend_loop_ok) (auto simp: ln lc)
  from assms show ?thesis
    by (simp add: build_map_def fc names colours layers_ok[unfolded Map_new_def] legend_ok
          widget_for_def Map_new_def add_legend_def centerObject_def)
qed

lemma build_map_total:
  assumes "filtered_classes_of pc = Inr fc"
    and "comprehension (filtered_class_name class_names class_values) (map fst fc) = Inr names"
    and "comprehension (filtered_class_colour class_palette class_values) (map fst fc) = Inr colours"
  shows "snd (build_map cc g title class_names class_values class_palette pc calls) =
           Inr (widget_for cc g title (map fst fc) names colours)"
proof -
  have ln: "length names = length fc" using comprehension_Inr[OF assms(2)] by simp
  have lc: "length colours = length fc" using comprehension_Inr[OF assms(3)] by simp
  have layers_ok: "add_layers cc colours names (List.enumerate 0 (map fst fc)) calls Map_new =
     (calls @ concat (map (\<lambda>(i, v). [Call_eq v, Call_updateMask]) (List.enumerate 0 (map fst fc))),
      Inr (Map_new\<lparr>layers := layers Map_new @
              map (\<lambda>(i, v). \<lparr>layer_image = UpdateMask cc (Eq cc v),
                              layer_palette = [CHR ''#'' # colours ! i],
                              layer_name = names ! i\<rparr>) (List.enumerate 0 (map fst fc))\<rparr>))"
    by (rule add_layers_ok) (auto simp: ln lc in_set_enumerate_eq)
  have legend_ok: "legend_loop names colours [0 ..< length names] [] =
     Inr (fold (\<lambda>i. AList.update (names ! i) (CHR ''#'' # colours ! i)) [0 ..< length names] [])"
    by (rule legend_loop_ok) (auto simp: ln lc)
  show ?thesis
    by (simp add: build_map_def assms layers_ok[unfolded Map_new_def] legend_ok
          widget_for_def Map_new_def add_legend_def centerObject_def)
qed

lemma build_map_Inl:
  assumes "filtered_classes_of pc = Inr fc"
    and "comprehension (filtered_class_name class_names class_values) (map fst fc) = Inl e"
  shows "build_map cc g title class_names class_values class_palette pc calls = (calls, Inl e)"
  using assms by (simp add: build_map_def)

lemma visualize_fetched:
  assumes "get_strings be (Image corine_id) ''landcover_class_names'' = Inr class_names"
    and "get_ints be (Image corine_id) ''landcover_class_values'' = Inr class_values"
    and "get_strings be (Image corine_id) ''landcover_class_palette'' = Inr class_palette"
    and "frequencyHistogram be (Clip (Image corine_id) g) g 100 100000000 = Inr pc"
  shows "visualize_corine_land_cover be (Geometry g) title =
           build_map (Clip (Image corine_id) g) g title class_names class_values class_palette pc
             (calls_before_build g)"
  using assms by (simp add: visualize_corine_land_cover_def Let_def calls_before_build_def)

lemma visualize_Inr:
  assumes "visualize_corine_land_cover be roi title = (calls, Inr m)"
  shows "\<exists>g class_names class_values class_palette pc.
           roi = Geometry g
         \<and> get_strings be (Image corine_id) ''landcover_class_names'' = Inr class_names
         \<and> get_ints be (Image corine_id) ''landcover_class_values'' = Inr class_values
         \<and> get_strings be (Image corine_id) ''landcover_class_palette'' = Inr class_palette
         \<and> frequencyHistogram be (Clip (Image corine_id) g) g 100 100000000 = Inr pc
         \<and> build_map (Clip (Image corine_id) g) g title class_names class_values class_palette pc
             (calls_before_build g) = (calls, Inr m)"
proof -
  from assms have "isinstance_Geometry roi"
    by (auto simp: visualize_corine_land_cover_def split: if_splits)
  then obtain g where roi: "roi = Geometry g"
    by (cases roi) simp_all
  from assms roi obtain class_names where
    n: "get_strings be (Image corine_id) ''landcover_class_names'' = Inr class_names"
    by (cases "get_strings be (Image corine_id) ''landcover_class_names''")
       (simp_all add: visualize_corine_land_cover_def Let_def)
  from assms roi n obtain class_values where
    v: "get_ints be (Image corine_id) ''landcover_class_values'' = Inr class_values"
    by (cases "get_ints be (Image corine_id) ''landcover_class_values''")
       (simp_all add: visualize_corine_land_cover_def Let_def)
  from assms roi n v obtain class_palette where
    p: "get_strings be (Image corine_id) ''landcover_class_palette'' = Inr class_palette"
    by (cases "get_strings be (Image corine_id) ''landcover_class_palette''")
       (simp_all add: visualize_corine_land_cover_def Let_def)
  from assms roi n v p obtain pc where
    h: "frequencyHistogram be (Clip (Image corine_id) g) g 100 100000000 = Inr pc"
    by (cases "frequencyHistogram be (Clip (Image corine_id) g) g 100 100000000")
       (simp_all add: visualize_corine_land_cover_def Let_def)
  from assms show ?thesis
    using roi n v p h visualize_fetched[OF n v p h, of title] by simp
qed

lemma widget_for_length:
  "length (layers (widget_for cc g t ids names colours)) = length ids"
  by (simp add: widget_for_def)

lemma widget_for_layer:
  "i < length ids \<Longrightarrow>
   layers (widget_for cc g t ids names colours) ! i =
     \<lparr>layer_image = UpdateMask cc (Eq cc (ids ! i)),
      layer_palette = [CHR ''#'' # colours ! i],
      layer_name = names ! i\<rparr>"
  by (simp add: widget_for_def nth_enumerate_eq)

lemma widget_for_images:
  "map layer_image (layers (widget_for cc g t ids names colours)) =
     map (\<lambda>v. UpdateMask cc (Eq cc v)) ids"
  by (rule nth_equalityI) (simp_all add: widget_for_length widget_for_layer)

lemma widget_for_legend:
  "legend (widget_for cc g t ids names colours) =
     Some (t, fold (\<lambda>i. AList.update (names ! i) (CHR ''#'' # colours ! i)) [0 ..< length names] [])"
  by (simp add: widget_for_def)

lemma visualize_Inr_widget:
  assumes "visualize_corine_land_cover be roi title = (calls, Inr m)"
  shows "\<exists>g class_names class_values class_palette pc fc names colours.
           roi = Geometry g
         \<and> get_strings be (Image corine_id) ''landcover_class_names'' = Inr class_names
         \<and> get_ints be (Image corine_id) ''landcover_class_values'' = Inr class_values
         \<and> get_strings be (Image corine_id) ''landcover_class_palette'' = Inr class_palette
         \<and> frequencyHistogram be (Clip (Image corine_id) g) g 100 100000000 = Inr pc
         \<and> filtered_classes_of pc = Inr fc
         \<and> comprehension (filtered_class_name class_names class_values) (map fst fc) = Inr names
         \<and> comprehension (filtered_class_colour class_palette class_values) (map fst fc) = Inr colours
         \<and> m = widget_for (Clip (Image corine_id) g) g title (map fst fc) names colours"
proof -
  from visualize_Inr[OF assms] obtain g class_names class_values class_palette pc where
    a: "roi = Geometry g"
       "get_strings be (Image corine_id) ''landcover_class_names'' = Inr class_names"
       "get_ints be (Image corine_id) ''landcover_class_values'' = Inr class_values"
       "get_strings be (Image corine_id) ''landcover_class_palette'' = Inr class_palette"
       "frequencyHistogram be (Clip (Image corine_id) g) g 100 100000000 = Inr pc"
    and b: "build_map (Clip (Image corine_id) g) g title class_names class_values class_palette pc
              (calls_before_build g) = (calls, Inr m)"
    by blast
  from build_map_Inr[OF b] a show ?thesis by blast
qed

subsection \<open>The region check\<close>

text \<open>
  Claim C1. If \<open>roi\<close> is not a geometry, the call raises \<open>TypeError\<close> (the
  specification's \<open>InvalidArgument\<close>), and no call on the Earth Engine client has been
  made by then: no image is loaded or clipped, no metadata is fetched and no reduction is
  requested.
\<close>

theorem non_geometry_raises_TypeError:
  assumes "\<not> isinstance_Geometry roi"
  shows "visualize_corine_land_cover be roi map_title = ([], Inl TypeError)"
  using assms by (simp add: visualize_corine_land_cover_def)

theorem non_geometry_raises_TypeError_example:
  "\<not> isinstance_Geometry (Str ''Berlin'')
   \<and> visualize_corine_land_cover scenario_backend (Str ''Berlin'') ''CORINE Land Cover Classes''
       = ([], Inl TypeError)"
  using non_geometry_raises_TypeError [of "Str ''Berlin''" scenario_backend "''CORINE Land Cover Classes''"]
  by simp

text \<open>
  The scenario of the specification, run through the model: two present classes, two
  layers, a legend of two entries, the view centred on the region at zoom 12.
\<close>

lemma scenario_run:
  "visualize_corine_land_cover scenario_backend (Geometry region0) ''CORINE Land Cover Classes'' =
     (calls_before_build region0 @ [Call_eq 1, Call_updateMask, Call_eq 2, Call_updateMask],
      Inr \<lparr>layers =
            [\<lparr>layer_image = UpdateMask (Clip (Image corine_id) region0) (Eq (Clip (Image corine_id) region0) 1),
              layer_palette = [''#228B22''], layer_name = ''Forest''\<rparr>,
             \<lparr>layer_image = UpdateMask (Clip (Image corine_id) region0) (Eq (Clip (Image corine_id) region0) 2),
              layer_palette = [''#0000FF''], layer_name = ''Water''\<rparr>],
           legend = Some (''CORINE Land Cover Classes'', [(''Forest'', ''#228B22''), (''Water'', ''#0000FF'')]),
           center = Some (region0, 12)\<rparr>)"
  by (simp add: visualize_corine_land_cover_def scenario_backend_def mk_backend_def build_map_def
        filtered_classes_of_def py_int_def strip_def is_space_def parse_digits_def digit_value_def
        filtered_class_name_def filtered_class_colour_def getitem_def str_split_def
        Map_new_def addLayer_def add_legend_def centerObject_def List.enumerate_eq_zip
        calls_before_build_def Let_def upt_rec)

subsection \<open>Layers and legend\<close>

text \<open>
  Claim C3. Whenever the visualizer returns a widget, the classes its layers show are
  exactly the integers denoted by the keys of the presence histogram the backend returned
  for the region: every key parses, every key's class has a layer, every layer's class
  comes from a key, and no class has two layers.
\<close>

theorem layers_are_histogram_keys:
  assumes "visualize_corine_land_cover be roi map_title = (calls, Inr m)"
  shows "\<exists>g present_classes ids.
           roi = Geometry g
         \<and> frequencyHistogram be (Clip (Image corine_id) g) g 100 100000000 = Inr present_classes
         \<and> map layer_image (layers m) =
             map (\<lambda>v. UpdateMask (Clip (Image corine_id) g) (Eq (Clip (Image corine_id) g) v)) ids
         \<and> distinct ids
         \<and> Inr ` set ids = py_int ` fst ` set present_classes"
proof -
  from visualize_Inr_widget[OF assms] obtain g pc fc names colours where
    roi: "roi = Geometry g" and
    h: "frequencyHistogram be (Clip (Image corine_id) g) g 100 100000000 = Inr pc" and
    fc: "filtered_classes_of pc = Inr fc" and
    m: "m = widget_for (Clip (Image corine_id) g) g map_title (map fst fc) names colours"
    by blast
  have "map layer_image (layers m) =
          map (\<lambda>v. UpdateMask (Clip (Image corine_id) g) (Eq (Clip (Image corine_id) g) v)) (map fst fc)"
    unfolding m by (rule widget_for_images)
  with roi h filtered_classes_of_Inr[OF fc] show ?thesis by blast
qed

theorem layers_are_histogram_keys_scenario:
  "\<exists>g present_classes ids.
       Geometry region0 = Geometry g
     \<and> frequencyHistogram scenario_backend (Clip (Image corine_id) g) g 100 100000000 = Inr present_classes
     \<and> [UpdateMask (Clip (Image corine_id) region0) (Eq (Clip (Image corine_id) region0) 1),
         UpdateMask (Clip (Image corine_id) region0) (Eq (Clip (Image corine_id) region0) 2)] =
         map (\<lambda>v. UpdateMask (Clip (Image corine_id) g) (Eq (Clip (Image corine_id) g) v)) ids
     \<and> distinct ids
     \<and> Inr ` set ids = py_int ` fst ` set present_classes"
  using layers_are_histogram_keys [OF scenario_run] by simp

text \<open>
  Claim C5. When the metadata is fetched and the presence histogram of the region is
  empty, the call returns normally: the widget has no layer, its legend dictionary is
  empty, and the view is centred on the region.
\<close>

theorem empty_histogram_empty_map:
  assumes "get_strings be (Image corine_id) ''landcover_class_names'' = Inr class_names"
    and "get_ints be (Image corine_id) ''landcover_class_values'' = Inr class_values"
    and "get_strings be (Image corine_id) ''landcover_class_palette'' = Inr class_palette"
    and "frequencyHistogram be (Clip (Image corine_id) g) g 100 100000000 = Inr []"
  shows "visualize_corine_land_cover be (Geometry g) map_title =
           (calls_before_build g,
            Inr \<lparr>layers = [], legend = Some (map_title, []), center = Some (g, 12)\<rparr>)"
  unfolding visualize_fetched[OF assms]
  by (simp add: build_map_def filtered_classes_of_def Map_new_def add_legend_def centerObject_def)

theorem empty_histogram_empty_map_example:
  "frequencyHistogram empty_backend (Clip (Image corine_id) region0) region0 100 100000000 = Inr []
   \<and> visualize_corine_land_cover empty_backend (Geometry region0) ''CORINE Land Cover Classes'' =
       (calls_before_build region0,
        Inr \<lparr>layers = [], legend = Some (''CORINE Land Cover Classes'', []), center = Some (region0, 12)\<rparr>)"
proof -
  have n: "get_strings empty_backend (Image corine_id) ''landcover_class_names''
             = Inr [''Vegetation; Forest'', ''Water'']"
    and v: "get_ints empty_backend (Image corine_id) ''landcover_class_values'' = Inr [1, 2]"
    and p: "get_strings empty_backend (Image corine_id) ''landcover_class_palette''
             = Inr [''228B22'', ''0000FF'']"
    and h: "frequencyHistogram empty_backend (Clip (Image corine_id) region0) region0 100 100000000
             = Inr []"
    by (simp_all add: empty_backend_def mk_backend_def)
  show ?thesis
    using h empty_histogram_empty_map [OF n v p h, of "''CORINE Land Cover Classes''"] by simp
qed

text \<open>
  Claim C7. In a returned widget, every layer shows a class of the metadata value list,
  and its name is the text of that class's metadata name after the last occurrence of
  \<^verbatim>\<open>"; "\<close> (the whole name when \<^verbatim>\<open>"; "\<close> does not occur); the keys of the legend
  dictionary are exactly these layer names.
\<close>

theorem display_name_is_last_suffix:
  assumes run: "visualize_corine_land_cover be roi map_title = (calls, Inr m)"
    and names: "get_strings be (Image corine_id) ''landcover_class_names'' = Inr class_names"
    and vals: "get_ints be (Image corine_id) ''landcover_class_values'' = Inr class_values"
    and i: "i < length (layers m)"
  shows "\<exists>v idx legend_dict.
           mask_class (layer_image (layers m ! i)) = Some v
         \<and> list_index class_values v = Inr idx
         \<and> idx < length class_names
         \<and> layer_name (layers m ! i) = suffix_after_last ''; '' (class_names ! idx)
         \<and> legend m = Some (map_title, legend_dict)
         \<and> fst ` set legend_dict = layer_name ` set (layers m)"
  using visualize_Inr_widget[OF run]
proof (elim exE conjE)
  fix g cn cv fc fnames colours
  assume a: "get_strings be (Image corine_id) ''landcover_class_names'' = Inr cn"
            "get_ints be (Image corine_id) ''landcover_class_values'' = Inr cv"
    and fn0: "comprehension (filtered_class_name cn cv) (map fst fc) = Inr fnames"
    and m: "m = widget_for (Clip (Image corine_id) g) g map_title (map fst fc) fnames colours"
  from a names vals have "cn = class_names" "cv = class_values" by simp_all
  with fn0 have
    fn: "comprehension (filtered_class_name class_names class_values) (map fst fc) = Inr fnames"
    by simp
  let ?ids = "map fst fc"
  have len: "length (layers m) = length ?ids" by (simp add: m widget_for_length)
  have lf: "length fnames = length ?ids" using comprehension_Inr[OF fn] by simp
  from i len have i': "i < length ?ids" by simp
  have layer: "layers m ! i =
      \<lparr>layer_image = UpdateMask (Clip (Image corine_id) g) (Eq (Clip (Image corine_id) g) (?ids ! i)),
       layer_palette = [CHR ''#'' # colours ! i], layer_name = fnames ! i\<rparr>"
    unfolding m by (rule widget_for_layer[OF i'])
  from comprehension_Inr[OF fn] i'
  have "filtered_class_name class_names class_values (?ids ! i) = Inr (fnames ! i)" by blast
  from filtered_class_name_Inr[OF this] obtain idx where
    idx: "list_index class_values (?ids ! i) = Inr idx" "idx < length class_names"
         "fnames ! i = suffix_after_last ''; '' (class_names ! idx)"
    by blast
  have names_of_layers: "map layer_name (layers m) = fnames"
  proof (rule nth_equalityI)
    show "length (map layer_name (layers m)) = length fnames"
      by (simp add: len lf)
  next
    fix j assume "j < length (map layer_name (layers m))"
    then have "j < length ?ids" by (simp add: len)
    then show "map layer_name (layers m) ! j = fnames ! j"
      by (simp add: m widget_for_layer widget_for_length)
  qed
  have "(\<lambda>i. fnames ! i) ` set [0 ..< length fnames] =
          set (map (\<lambda>i. fnames ! i) [0 ..< length fnames])"
    by (simp only: set_map)
  also have "map (\<lambda>i. fnames ! i) [0 ..< length fnames] = fnames"
    by (rule map_nth)
  finally have "(\<lambda>i. fnames ! i) ` set [0 ..< length fnames] = set fnames" .
  then have "fst ` set (fold (\<lambda>i. AList.update (fnames ! i) (CHR ''#'' # colours ! i))
                         [0 ..< length fnames] []) = set fnames"
    by (simp add: keys_fold_update[of "\<lambda>i. fnames ! i"])
  also have "set fnames = layer_name ` set (layers m)"
    using names_of_layers by (metis set_map)
  finally have keys: "fst ` set (fold (\<lambda>i. AList.update (fnames ! i) (CHR ''#'' # colours ! i))
                         [0 ..< length fnames] []) = layer_name ` set (layers m)" .
  have leg: "legend m = Some (map_title,
      fold (\<lambda>i. AList.update (fnames ! i) (CHR ''#'' # colours ! i)) [0 ..< length fnames] [])"
    by (simp add: m widget_for_legend)
  from layer idx keys leg show ?thesis by simp
qed

theorem display_name_is_last_suffix_scenario:
  "\<exists>v idx legend_dict.
       Some (1::int) = Some v
     \<and> list_index [1, 2] v = Inr idx
     \<and> idx < length [''Vegetation; Forest'', ''Water'']
     \<and> ''Forest'' = suffix_after_last ''; '' ([''Vegetation; Forest'', ''Water''] ! idx)
     \<and> Some (''CORINE Land Cover Classes'', [(''Forest'', ''#228B22''), (''Water'', ''#0000FF'')])
         = Some (''CORINE Land Cover Classes'', legend_dict)
     \<and> fst ` set legend_dict = {''Forest'', ''Water''}"
proof -
  have n: "get_strings scenario_backend (Image corine_id) ''landcover_class_names''
             = Inr [''Vegetation; Forest'', ''Water'']"
    and v: "get_ints scenario_backend (Image corine_id) ''landcover_class_values'' = Inr [1, 2]"
    by (simp_all add: scenario_backend_def mk_backend_def)
  show ?thesis
    using display_name_is_last_suffix [OF scenario_run n v, of 0] by simp
qed

text \<open>
  Two present classes whose metadata names end in the same text share one legend key:
  the entry built for the first is overwritten by the second. Here classes 1 and 2 are
  both displayed as \<open>Mixed\<close>, and the legend gives \<open>#bbbbbb\<close> for the first layer, whose
  palette entry is \<open>aaaaaa\<close>.
\<close>


theorem legend_colour_shadowed_example:
  "\<not> isl (snd (visualize_corine_land_cover duplicate_backend (Geometry region0)
                  ''CORINE Land Cover Classes''))
   \<and> \<not> legend_entry_matches [1, 2] [''aaaaaa'', ''bbbbbb'']
         (projr (snd (visualize_corine_land_cover duplicate_backend (Geometry region0)
                        ''CORINE Land Cover Classes''))) 0"
  by (simp add: visualize_corine_land_cover_def duplicate_backend_def mk_backend_def build_map_def
        filtered_classes_of_def py_int_def strip_def is_space_def parse_digits_def digit_value_def
        filtered_class_name_def filtered_class_colour_def getitem_def str_split_def
        Map_new_def addLayer_def add_legend_def centerObject_def List.enumerate_eq_zip
        Let_def upt_rec legend_entry_matches_def)

text \<open>
  Claim C4, amended. In a returned widget, for every layer whose name is not used again
  by a later layer, the legend entry under that name is \<^verbatim>\<open>#\<close> followed by the palette
  entry at the index at which the layer's class first occurs in the metadata value list.
\<close>

theorem legend_colour_from_palette:
  assumes run: "visualize_corine_land_cover be roi map_title = (calls, Inr m)"
    and vals: "get_ints be (Image corine_id) ''landcover_class_values'' = Inr class_values"
    and pal: "get_strings be (Image corine_id) ''landcover_class_palette'' = Inr class_palette"
    and i: "i < length (layers m)"
    and last_of_name:
      "\<forall>j. i < j \<and> j < length (layers m) \<longrightarrow> layer_name (layers m ! j) \<noteq> layer_name (layers m ! i)"
  shows "legend_entry_matches class_values class_palette m i"
  using visualize_Inr_widget[OF run]
proof (elim exE conjE)
  fix g cn cv cp fc fnames colours
  assume a: "get_ints be (Image corine_id) ''landcover_class_values'' = Inr cv"
            "get_strings be (Image corine_id) ''landcover_class_palette'' = Inr cp"
    and fn: "comprehension (filtered_class_name cn cv) (map fst fc) = Inr fnames"
    and fc0: "comprehension (filtered_class_colour cp cv) (map fst fc) = Inr colours"
    and m: "m = widget_for (Clip (Image corine_id) g) g map_title (map fst fc) fnames colours"
  from a vals pal have "cv = class_values" "cp = class_palette" by simp_all
  with fc0 have
    fcol: "comprehension (filtered_class_colour class_palette class_values) (map fst fc) = Inr colours"
    by simp
  let ?ids = "map fst fc"
  have len: "length (layers m) = length ?ids" by (simp add: m widget_for_length)
  have lf: "length fnames = length ?ids" using comprehension_Inr[OF fn] by simp
  from i len have i': "i < length ?ids" by simp
  have layer: "\<And>j. j < length ?ids \<Longrightarrow> layers m ! j =
      \<lparr>layer_image = UpdateMask (Clip (Image corine_id) g) (Eq (Clip (Image corine_id) g) (?ids ! j)),
       layer_palette = [CHR ''#'' # colours ! j], layer_name = fnames ! j\<rparr>"
    unfolding m by (rule widget_for_layer)
  from comprehension_Inr[OF fcol] i'
  have "filtered_class_colour class_palette class_values (?ids ! i) = Inr (colours ! i)" by blast
  from filtered_class_colour_Inr[OF this] obtain idx where
    idx: "list_index class_values (?ids ! i) = Inr idx" "colours ! i = class_palette ! idx"
    by blast
  have later: "\<And>j. i < j \<Longrightarrow> j < length fnames \<Longrightarrow> fnames ! j \<noteq> fnames ! i"
  proof -
    fix j assume j: "i < j" "j < length fnames"
    with last_of_name len lf have "layer_name (layers m ! j) \<noteq> layer_name (layers m ! i)"
      by simp
    with j lf i' show "fnames ! j \<noteq> fnames ! i"
      by (simp add: layer)
  qed
  from i' lf have i'': "i < length fnames" by simp
  have "map_of (fold (\<lambda>i. AList.update (fnames ! i) (CHR ''#'' # colours ! i))
                  [0 ..< length fnames] []) (fnames ! i) = Some (CHR ''#'' # colours ! i)"
    by (rule map_of_fold_update_last[of i "length fnames" "\<lambda>i. fnames ! i", OF i'' later])
  then show ?thesis
    using idx i' by (simp add: legend_entry_matches_def m widget_for_layer widget_for_legend)
qed

theorem legend_colour_from_palette_scenario:
  "legend_entry_matches [1, 2] [''228B22'', ''0000FF'']
     \<lparr>layers =
        [\<lparr>layer_image = UpdateMask (Clip (Image corine_id) region0) (Eq (Clip (Image corine_id) region0) 1),
          layer_palette = [''#228B22''], layer_name = ''Forest''\<rparr>,
         \<lparr>layer_image = UpdateMask (Clip (Image corine_id) region0) (Eq (Clip (Image corine_id) region0) 2),
          layer_palette = [''#0000FF''], layer_name = ''Water''\<rparr>],
       legend = Some (''CORINE Land Cover Classes'', [(''Forest'', ''#228B22''), (''Water'', ''#0000FF'')]),
       center = Some (region0, 12)\<rparr> 0"
proof -
  have v: "get_ints scenario_backend (Image corine_id) ''landcover_class_values'' = Inr [1, 2]"
    and p: "get_strings scenario_backend (Image corine_id) ''landcover_class_palette''
             = Inr [''228B22'', ''0000FF'']"
    by (simp_all add: scenario_backend_def mk_backend_def)
  show ?thesis
    by (rule legend_colour_from_palette [OF scenario_run v p]) (auto simp: less_Suc_eq)
qed

subsection \<open>Inconsistent metadata\<close>

text \<open>
  Claim C8. When the metadata is fetched and the presence histogram (all of whose keys are
  integer literals) has a class that is not in the metadata value list, the call ends
  with an exception raised by a lookup: the \<open>ValueError\<close> of \<^verbatim>\<open>list.index\<close> for a
  present class absent from the value list, or the \<open>IndexError\<close> of indexing a list of
  names shorter than the value list. When the list of names is at least as long as the
  value list it is the \<open>ValueError\<close>. No default is substituted and no widget is returned.
\<close>

theorem absent_class_lookup_fails:
  assumes names: "get_strings be (Image corine_id) ''landcover_class_names'' = Inr class_names"
    and vals: "get_ints be (Image corine_id) ''landcover_class_values'' = Inr class_values"
    and pal: "get_strings be (Image corine_id) ''landcover_class_palette'' = Inr class_palette"
    and hist: "frequencyHistogram be (Clip (Image corine_id) g) g 100 100000000 = Inr present_classes"
    and parse: "\<forall>k\<in>fst ` set present_classes. \<exists>v. py_int k = Inr v"
    and absent: "\<exists>k\<in>fst ` set present_classes. \<exists>v. py_int k = Inr v \<and> v \<notin> set class_values"
  shows "\<exists>e. visualize_corine_land_cover be (Geometry g) map_title = (calls_before_build g, Inl e)
           \<and> (e = IndexError
              \<or> (\<exists>v. Inr v \<in> py_int ` fst ` set present_classes \<and> v \<notin> set class_values
                     \<and> e = ValueError_not_in_list v))
           \<and> (length class_values \<le> length class_names \<longrightarrow> e \<noteq> IndexError)"
proof -
  from filtered_classes_of_total[OF parse] obtain fc where
    fc: "filtered_classes_of present_classes = Inr fc" by blast
  note ids = filtered_classes_of_Inr(2)[OF fc]
  from absent obtain k v where
    k: "k \<in> fst ` set present_classes" and v: "py_int k = Inr v" "v \<notin> set class_values"
    by blast
  from k v(1) have "Inr v \<in> py_int ` fst ` set present_classes"
    by (metis image_eqI)
  with ids have "(Inr v :: error + int) \<in> Inr ` set (map fst fc)" by simp
  then have vin: "v \<in> set (map fst fc)" by blast
  have "filtered_class_name class_names class_values v = Inl (ValueError_not_in_list v)"
    by (simp add: filtered_class_name_def list_index_absent[OF v(2)])
  from comprehension_fails[of v "map fst fc" "filtered_class_name class_names class_values",
      OF vin this] obtain e where
    e: "comprehension (filtered_class_name class_names class_values) (map fst fc) = Inl e"
    by blast
  from comprehension_Inl[OF e] obtain x where
    x: "x \<in> set (map fst fc)" "filtered_class_name class_names class_values x = Inl e"
    by blast
  from x(1) have "(Inr x :: error + int) \<in> Inr ` set (map fst fc)" by blast
  with ids have xin: "Inr x \<in> py_int ` fst ` set present_classes" by simp
  have run: "visualize_corine_land_cover be (Geometry g) map_title = (calls_before_build g, Inl e)"
    unfolding visualize_fetched[OF names vals pal hist]
    by (rule build_map_Inl[OF fc e])
  from filtered_class_name_Inl[OF x(2)] show ?thesis
  proof
    assume "x \<notin> set class_values \<and> e = ValueError_not_in_list x"
    with run xin show ?thesis by blast
  next
    assume ie: "e = IndexError \<and>
      (\<exists>idx. list_index class_values x = Inr idx \<and> length class_names \<le> idx)"
    then obtain idx where idx: "list_index class_values x = Inr idx" "length class_names \<le> idx"
      by blast
    from list_index_Inr[OF idx(1)] have "idx < length class_values" by blast
    with idx(2) have "\<not> length class_values \<le> length class_names" by simp
    with run ie show ?thesis by blast
  qed
qed

theorem absent_class_lookup_fails_example:
  "visualize_corine_land_cover inconsistent_backend (Geometry region0) ''CORINE Land Cover Classes''
     = (calls_before_build region0, Inl (ValueError_not_in_list 3))"
proof -
  have n: "get_strings inconsistent_backend (Image corine_id) ''landcover_class_names''
             = Inr [''Vegetation; Forest'', ''Water'']"
    and v: "get_ints inconsistent_backend (Image corine_id) ''landcover_class_values'' = Inr [1, 2]"
    and p: "get_strings inconsistent_backend (Image corine_id) ''landcover_class_palette''
             = Inr [''228B22'', ''0000FF'']"
    and h: "frequencyHistogram inconsistent_backend (Clip (Image corine_id) region0) region0
              100 100000000 = Inr [(''1'', 5), (''3'', 7)]"
    by (simp_all add: inconsistent_backend_def mk_backend_def)
  have i1: "py_int ''1'' = Inr 1" and i3: "py_int ''3'' = Inr 3"
    by (simp_all add: py_int_def strip_def is_space_def parse_digits_def digit_value_def)
  have parse: "\<forall>k\<in>fst ` set [(''1'', 5::nat), (''3'', 7)]. \<exists>v. py_int k = Inr v"
    by (simp add: i1 i3)
  have absent: "\<exists>k\<in>fst ` set [(''1'', 5::nat), (''3'', 7)]. \<exists>v. py_int k = Inr v \<and> v \<notin> set [1, 2]"
    by (simp add: i1 i3)
  from absent_class_lookup_fails [OF n v p h parse absent, of "''CORINE Land Cover Classes''"]
  show ?thesis
    by (auto simp: i1 i3)
qed

subsection \<open>When the call returns\<close>

text \<open>
  The call returns a widget whenever the responses arrive, every key of the histogram
  denotes a class of the metadata value list, and the lists of names and colours are at
  least as long as the value list.
\<close>

lemma filtered_class_name_total:
  assumes "v \<in> set class_values" and "length class_values \<le> length class_names"
  shows "\<exists>n. filtered_class_name class_names class_values v = Inr n"
proof -
  from list_index_present[OF assms(1)] obtain idx where
    idx: "list_index class_values v = Inr idx" by blast
  from list_index_Inr[OF idx] assms(2) have lt: "idx < length class_names" by simp
  obtain parts where parts: "str_split (class_names ! idx) ''; '' = Inr parts"
    by (simp add: str_split_def)
  from idx lt parts display_name_suffix[OF parts] show ?thesis
    by (simp add: filtered_class_name_def getitem_nat)
qed

lemma filtered_class_colour_total:
  assumes "v \<in> set class_values" and "length class_values \<le> length class_palette"
  shows "\<exists>c. filtered_class_colour class_palette class_values v = Inr c"
proof -
  from list_index_present[OF assms(1)] obtain idx where
    idx: "list_index class_values v = Inr idx" by blast
  from list_index_Inr[OF idx] assms(2) have "idx < length class_palette" by simp
  with idx show ?thesis
    by (simp add: filtered_class_colour_def getitem_nat)
qed

lemma visualize_succeeds:
  assumes names: "get_strings be (Image corine_id) ''landcover_class_names'' = Inr class_names"
    and vals: "get_ints be (Image corine_id) ''landcover_class_values'' = Inr class_values"
    and pal: "get_strings be (Image corine_id) ''landcover_class_palette'' = Inr class_palette"
    and hist: "frequencyHistogram be (Clip (Image corine_id) g) g 100 100000000 = Inr present_classes"
    and known: "\<forall>k\<in>fst ` set present_classes. \<exists>v. py_int k = Inr v \<and> v \<in> set class_values"
    and ln: "length class_values \<le> length class_names"
    and lp: "length class_values \<le> length class_palette"
  shows "\<exists>m. snd (visualize_corine_land_cover be (Geometry g) map_title) = Inr m"
proof -
  from known have parse: "\<forall>k\<in>fst ` set present_classes. \<exists>v. py_int k = Inr v" by blast
  from filtered_classes_of_total[OF parse] obtain fc where
    fc: "filtered_classes_of present_classes = Inr fc" by blast
  note ids = filtered_classes_of_Inr(2)[OF fc]
  have in_vals: "x \<in> set class_values" if "x \<in> set (map fst fc)" for x
  proof -
    from that have "(Inr x :: error + int) \<in> Inr ` set (map fst fc)" by blast
    with ids have "Inr x \<in> py_int ` fst ` set present_classes" by simp
    then obtain k where k: "k \<in> fst ` set present_classes" "py_int k = Inr x"
      by (metis imageE)
    with known show ?thesis by force
  qed
  have "\<exists>ys. comprehension (filtered_class_name class_names class_values) (map fst fc) = Inr ys"
    by (rule comprehension_total) (rule filtered_class_name_total[OF in_vals ln])
  then obtain fnames where
    fn: "comprehension (filtered_class_name class_names class_values) (map fst fc) = Inr fnames"
    by blast
  have "\<exists>ys. comprehension (filtered_class_colour class_palette class_values) (map fst fc) = Inr ys"
    by (rule comprehension_total) (rule filtered_class_colour_total[OF in_vals lp])
  then obtain colours where
    fcol: "comprehension (filtered_class_colour class_palette class_values) (map fst fc) = Inr colours"
    by blast
  show ?thesis
    unfolding visualize_fetched[OF names vals pal hist]
    using build_map_total[OF fc fn fcol] by blast
qed

end
